theory Spec2Isabelle
  imports Complex_Main "HOL-Library.Char_ord"
begin

section \<open>Python strings\<close>

text \<open>
  Strings are character lists. The scripts use three string operations: \<^verbatim>\<open>s.lower()\<close>,
  the substring test \<^verbatim>\<open>sub in s\<close> and \<^verbatim>\<open>str(n)\<close> on small integers.
  \<^verbatim>\<open>lower\<close> is modelled on ASCII letters; every keyword the scripts search for is ASCII.
\<close>

definition lower_char :: "char \<Rightarrow> char" where
  "lower_char c =
     (if CHR ''A'' \<le> c \<and> c \<le> CHR ''Z'' then char_of (of_char c + (32::nat)) else c)"

definition lower :: "string \<Rightarrow> string" where
  "lower s = map lower_char s"

fun startswith :: "string \<Rightarrow> string \<Rightarrow> bool" where
  "startswith s [] = True"
| "startswith [] (c # cs) = False"
| "startswith (x # xs) (c # cs) = (x = c \<and> startswith xs cs)"

text \<open>\<open>contains s sub\<close> is Python's \<^verbatim>\<open>sub in s\<close>.\<close>

fun contains :: "string \<Rightarrow> string \<Rightarrow> bool" where
  "contains [] sub = (sub = [])"
| "contains (x # xs) sub = (startswith (x # xs) sub \<or> contains xs sub)"

text \<open>\<open>any_in s subs\<close> is \<^verbatim>\<open>any(x in s for x in subs)\<close>.\<close>

definition any_in :: "string \<Rightarrow> string list \<Rightarrow> bool" where
  "any_in s subs = list_ex (\<lambda>x. contains s x) subs"

text \<open>\<open>str_int n\<close> is \<^verbatim>\<open>str(n)\<close> on an integer: its decimal digits.\<close>

definition digit_char :: "nat \<Rightarrow> char" where
  "digit_char d = char_of (48 + d)"

function str_nat :: "nat \<Rightarrow> string" where
  "str_nat n =
     (if n < 10 then [digit_char n] else str_nat (n div 10) @ [digit_char (n mod 10)])"
  by pat_completeness auto
termination
  by (relation "measure id") auto

declare str_nat.simps [simp del]

definition str_int :: "int \<Rightarrow> string" where
  "str_int i = (if i < 0 then CHR ''-'' # str_nat (nat (- i)) else str_nat (nat i))"

section \<open>Python dictionaries\<close>

text \<open>
  A dictionary that the code iterates over is an association list in insertion order;
  \<^verbatim>\<open>d.get(k, default)\<close> reads it. The parsed index values are Python floats; they are
  modelled as (finite) real numbers, and float division as real division.
\<close>

type_synonym 'v dict = "(string \<times> 'v) list"

definition dict_get :: "'v dict \<Rightarrow> string \<Rightarrow> 'v \<Rightarrow> 'v" where
  "dict_get d k dflt = (case map_of d k of None \<Rightarrow> dflt | Some v \<Rightarrow> v)"

section \<open>Seniority classification (executive\_engagement\_analysis.py)\<close>

text \<open>
  The title is a cell of a dataframe column: a string, or missing (\<^verbatim>\<open>None\<close>/NaN, for
  which \<^verbatim>\<open>pd.isna\<close> holds), modelled as \<open>None\<close>.
\<close>

definition classify_seniority_level :: "string option \<Rightarrow> string" where
  "classify_seniority_level title =
     (case title of
        None \<Rightarrow> ''Unknown''
      | Some t \<Rightarrow>
          if t = '''' then ''Unknown''
          else
            let title_lower = lower t in
            if any_in title_lower
                 [''ceo'', ''chief executive'', ''president'', ''cmo'', ''chief marketing'',
                  ''cto'', ''chief technology'', ''cfo'', ''chief financial'', ''coo'',
                  ''chief operating'']
            then ''C-Level''
            else if any_in title_lower
                 [''senior vice president'', ''senior vp'', ''svp'',
                  ''executive vice president'', ''evp'']
            then ''Senior VP''
            else if any_in title_lower [''vice president'', ''vp '', '' vp'']
            then ''VP''
            else if any_in title_lower [''senior director'', ''sr director'', ''sr. director'']
            then ''Senior Director''
            else if contains title_lower ''director''
            then ''Director''
            else if any_in title_lower [''senior manager'', ''sr manager'', ''sr. manager'']
            then ''Senior Manager''
            else if contains title_lower ''manager''
            then ''Manager''
            else ''Individual Contributor'')"

section \<open>Artist-brand matching (artist\_brand\_matching.py)\<close>

subsection \<open>Age\<close>

definition age_map :: "(int \<times> int) dict" where
  "age_map =
     [(''16-20'', (16, 20)),
      (''21-29'', (21, 29)),
      (''28-43'', (28, 43)),
      (''30-39'', (30, 39)),
      (''40-49'', (40, 49)),
      (''44-59'', (44, 59)),
      (''50-59'', (50, 59)),
      (''60+'', (60, 75))]"

text \<open>The first loop of \<^verbatim>\<open>calculate_age_similarity\<close>: the first key of the age map that
  occurs in the brand's age text gives the brand's range.\<close>

definition brand_age_range :: "string \<Rightarrow> (int \<times> int) option" where
  "brand_age_range brand_age =
     map_option snd (find (\<lambda>(age_str, age_tuple). contains brand_age age_str) age_map)"

text \<open>The inner loop over the age map, left at the first entry one of whose ages
  (\<^verbatim>\<open>range(lo, hi + 1)\<close>) occurs, as a decimal number, in the artist's group label.\<close>

definition artist_age_range :: "string \<Rightarrow> (int \<times> int) option" where
  "artist_age_range artist_age_group =
     map_option snd
       (find (\<lambda>(age_str, (lo, hi)).
                 list_ex (\<lambda>x. contains artist_age_group (str_int x)) [lo..hi])
          age_map)"

text \<open>The overlap of the artist's range with the brand's, and the largest overlap that the
  widths of the two ranges allow.\<close>

definition overlap :: "int \<times> int \<Rightarrow> int \<times> int \<Rightarrow> int" where
  "overlap age_tuple brand_range =
     max 0 (min (snd age_tuple) (snd brand_range) - max (fst age_tuple) (fst brand_range))"

definition max_overlap :: "int \<times> int \<Rightarrow> int \<times> int \<Rightarrow> int" where
  "max_overlap age_tuple brand_range =
     min (snd age_tuple - fst age_tuple) (snd brand_range - fst brand_range)"

text \<open>The body of the outer loop, on one entry of the artist's age table, with the two
  accumulators \<^verbatim>\<open>(total_score, total_weight)\<close>.\<close>

definition age_loop_body ::
  "int \<times> int \<Rightarrow> string \<times> real \<Rightarrow> real \<times> real \<Rightarrow> real \<times> real" where
  "age_loop_body brand_range item acc =
     (let (artist_age_group, index) = item;
          (total_score, total_weight) = acc
      in if contains artist_age_group ''Years Old'' then
           (case artist_age_range artist_age_group of
              None \<Rightarrow> (total_score, total_weight)
            | Some age_tuple \<Rightarrow>
                if max_overlap age_tuple brand_range > 0 then
                  let overlap_score =
                        real_of_int (overlap age_tuple brand_range)
                        / real_of_int (max_overlap age_tuple brand_range);
                      weight = 1 + max 0 index
                  in (total_score + overlap_score * weight, total_weight + weight)
                else (total_score, total_weight))
         else (total_score, total_weight))"

fun age_loop :: "int \<times> int \<Rightarrow> real dict \<Rightarrow> real \<times> real \<Rightarrow> real \<times> real" where
  "age_loop brand_range [] acc = acc"
| "age_loop brand_range (item # rest) acc =
     age_loop brand_range rest (age_loop_body brand_range item acc)"

definition calculate_age_similarity :: "real dict \<Rightarrow> string \<Rightarrow> real" where
  "calculate_age_similarity artist_age brand_age =
     (case brand_age_range brand_age of
        None \<Rightarrow> 0.5
      | Some brand_range \<Rightarrow>
          let (total_score, total_weight) = age_loop brand_range artist_age (0, 0)
          in if total_weight > 0 then total_score / total_weight else 0.5)"

subsection \<open>Gender\<close>

definition calculate_gender_similarity :: "real dict \<Rightarrow> string \<Rightarrow> real" where
  "calculate_gender_similarity artist_gender brand_gender =
     (if brand_gender = ''All Genders'' \<or> artist_gender = [] then 0.75
      else
        let female_pct = dict_get artist_gender ''Female'' 0;
            male_pct = dict_get artist_gender ''Male'' 0
        in if female_pct > 0.6 \<and> contains brand_gender ''Female'' then 0.9
           else if male_pct > 0.6 \<and> contains brand_gender ''Male'' then 0.9
           else if \<bar>female_pct - 0.5\<bar> < 0.1 then 0.8
           else 0.6)"

subsection \<open>Income\<close>

definition income_brackets :: "real dict" where
  "income_brackets =
     [(''Less than $30K'', 1),
      (''$25,000 - $50,000'', 2),
      (''$30K-$49K'', 2),
      (''$50K-$74K'', 3),
      (''$50,000 - $100,000'', 3.5),
      (''$75K-$125k'', 4),
      (''$100,000 - $150,000'', 5),
      (''$125K or More'', 6),
      (''$150,000+'', 6)]"

text \<open>The brand's level: 3.5 unless a bracket name occurs in the brand's income text; the
  first such bracket wins.\<close>

definition brand_income_level :: "string \<Rightarrow> real" where
  "brand_income_level brand_income =
     (case find (\<lambda>(bracket, level). contains brand_income bracket) income_brackets of
        None \<Rightarrow> 3.5
      | Some (bracket, level) \<Rightarrow> level)"

text \<open>The body of the loop over the artist's income table, with the accumulators
  \<^verbatim>\<open>(artist_level, total_weight)\<close>.\<close>

definition income_loop_body :: "string \<times> real \<Rightarrow> real \<times> real \<Rightarrow> real \<times> real" where
  "income_loop_body item acc =
     (let (bracket, index) = item;
          (artist_level, total_weight) = acc
      in case map_of income_brackets bracket of
           None \<Rightarrow> (artist_level, total_weight)
         | Some level \<Rightarrow>
             let weight = 1 + max 0 index
             in (artist_level + level * weight, total_weight + weight))"

fun income_loop :: "real dict \<Rightarrow> real \<times> real \<Rightarrow> real \<times> real" where
  "income_loop [] acc = acc"
| "income_loop (item # rest) acc = income_loop rest (income_loop_body item acc)"

definition artist_income_level :: "real dict \<Rightarrow> real" where
  "artist_income_level artist_income =
     (let (artist_level, total_weight) = income_loop artist_income (0, 0)
      in if total_weight > 0 then artist_level / total_weight else 3.5)"

definition calculate_income_similarity :: "real dict \<Rightarrow> string \<Rightarrow> real" where
  "calculate_income_similarity artist_income brand_income =
     (let brand_level = brand_income_level brand_income;
          artist_level = artist_income_level artist_income;
          distance = \<bar>artist_level - brand_level\<bar>;
          similarity = 1 - distance / 5
      in max 0 (min 1 similarity))"

subsection \<open>Ethnicity\<close>

definition calculate_ethnicity_similarity :: "real dict \<Rightarrow> string \<Rightarrow> real" where
  "calculate_ethnicity_similarity artist_ethnicity brand_ethnicity =
     (if artist_ethnicity = [] \<or> brand_ethnicity = '''' then 0.7
      else
        let score = 0.5;
            score =
              (if contains brand_ethnicity ''White''
                  \<and> dict_get artist_ethnicity ''White'' 0 > 0
               then score + 0.3 * (1 + dict_get artist_ethnicity ''White'' 0)
               else if contains brand_ethnicity ''Hispanic''
                  \<and> dict_get artist_ethnicity ''Hispanic'' 0 > 0
               then score + 0.3 * (1 + dict_get artist_ethnicity ''Hispanic'' 0)
               else if contains brand_ethnicity ''African American''
                  \<and> dict_get artist_ethnicity ''African American'' 0 > 0
               then score + 0.3 * (1 + dict_get artist_ethnicity ''African American'' 0)
               else if contains brand_ethnicity ''Asian''
                  \<and> dict_get artist_ethnicity ''Asian'' 0 > 0
               then score + 0.3 * (1 + dict_get artist_ethnicity ''Asian'' 0)
               else score)
        in min 1 score)"

subsection \<open>Consumer attributes and brand industries\<close>

definition industry_attribute_map :: "string list dict" where
  "industry_attribute_map =
     [(''hard seltzer'', [''beer, wine, liquor'', ''alcoholic beverages'', ''beverage'']),
      (''coffee houses'', [''restaurants'', ''coffee'', ''qsr'', ''starbucks'', ''dunkin'']),
      (''dog owners'', [''pet supplies'', ''pet food'', ''pet care'']),
      (''movie goers'', [''entertainment'', ''streaming'', ''media'', ''theaters'']),
      (''travelers'', [''airlines'', ''hotels'', ''travel'', ''hospitality'']),
      (''vapers'', [''tobacco'', ''vaping'', ''nicotine'']),
      (''tea drinkers'', [''beverages'', ''tea'', ''non-alcoholic'']),
      (''moms'', [''packaged foods'', ''household'', ''retail'', ''grocery'']),
      (''dads'', [''automotive'', ''tools'', ''sports'', ''beer'']),
      (''married'', [''insurance'', ''financial'', ''home improvement'']),
      (''quality conscious'', [''premium'', ''luxury'', ''high-end'']),
      (''budget conscious'', [''discount'', ''value'', ''walmart'', ''dollar'']),
      (''horror tv viewers'', [''streaming'', ''entertainment'']),
      (''reality tv viewers'', [''entertainment'', ''media'']),
      (''podcast listeners'', [''media'', ''audio'', ''streaming'']),
      (''streamers'', [''streaming'', ''entertainment'', ''gaming'']),
      (''cosmetics'', [''cosmetics'', ''beauty'', ''personal care'']),
      (''snack food'', [''packaged foods'', ''snacks'', ''chips'']),
      (''fast casual'', [''restaurants'', ''qsr'', ''fast food'']),
      (''hybrid drivers'', [''automotive'', ''eco-friendly'', ''sustainable'']),
      (''suv drivers'', [''automotive'', ''trucks'', ''vehicles''])]"

text \<open>The score of one match: \<^verbatim>\<open>(1 + index) / 3 if index > 0 else 0.3\<close>.\<close>

definition match_score :: "real \<Rightarrow> real" where
  "match_score index = (if index > 0 then (1 + index) / 3 else 0.3)"

text \<open>The body of the loop over the industry map, for one artist attribute and one entry of
  the map. An entry whose key occurs in the attribute adds one match, at the first of its
  industries that occurs in the brand's industries (the innermost loop, left by
  \<^verbatim>\<open>break\<close>). The accumulators are \<^verbatim>\<open>(matches, total_score)\<close>.\<close>

definition attr_key_loop_body ::
  "string \<Rightarrow> real \<Rightarrow> string \<Rightarrow> string \<times> string list \<Rightarrow> string list \<times> real
     \<Rightarrow> string list \<times> real" where
  "attr_key_loop_body attr index brand_industries_lower entry acc =
     (let (attr_key, industry_list) = entry;
          (matches, total_score) = acc
      in if contains (lower attr) attr_key then
           (case find (\<lambda>industry. contains brand_industries_lower industry) industry_list of
              None \<Rightarrow> (matches, total_score)
            | Some industry \<Rightarrow> (matches @ [attr], total_score + match_score index))
         else (matches, total_score))"

fun attr_key_loop ::
  "string \<Rightarrow> real \<Rightarrow> string \<Rightarrow> string list dict \<Rightarrow> string list \<times> real
     \<Rightarrow> string list \<times> real" where
  "attr_key_loop attr index brand_industries_lower [] acc = acc"
| "attr_key_loop attr index brand_industries_lower (entry # rest) acc =
     attr_key_loop attr index brand_industries_lower rest
       (attr_key_loop_body attr index brand_industries_lower entry acc)"

text \<open>The loop over the artist's attributes.\<close>

fun attr_loop :: "string \<Rightarrow> real dict \<Rightarrow> string list \<times> real \<Rightarrow> string list \<times> real" where
  "attr_loop brand_industries_lower [] acc = acc"
| "attr_loop brand_industries_lower ((attr, index) # rest) acc =
     attr_loop brand_industries_lower rest
       (attr_key_loop attr index brand_industries_lower industry_attribute_map acc)"

definition calculate_attribute_affinity :: "real dict \<Rightarrow> string \<Rightarrow> real \<times> nat" where
  "calculate_attribute_affinity artist_attrs brand_industries =
     (if artist_attrs = [] \<or> brand_industries = '''' then (0, 0)
      else
        let brand_industries_lower = lower brand_industries;
            (matches, total_score) = attr_loop brand_industries_lower artist_attrs ([], 0);
            avg_score = (if matches \<noteq> [] then total_score / real (length artist_attrs)
                         else 0.2)
        in (min 1 avg_score, length matches))"

subsection \<open>The composite score\<close>

text \<open>
  An artist's parsed audience has the five tables that \<^verbatim>\<open>parse_artist_audience\<close> creates.
  A brand's parsed audience is what \<^verbatim>\<open>parse_brand_audience\<close> returned: a dictionary (its
  fields are text here, as the comparisons of the code expect), a list, or another value.
\<close>

record artist_audience =
  gender :: "real dict"
  ethnicity :: "real dict"
  income :: "real dict"
  age :: "real dict"
  attributes :: "real dict"

record artist =
  name :: string
  genre :: string
  audience_parsed :: artist_audience

datatype audience = AudDict "string dict" | AudList "audience list" | AudOther

record brand =
  AudienceParsed :: audience
  Industries :: string

record demo_scores =
  score_age :: real
  score_gender :: real
  score_income :: real
  score_ethnicity :: real

definition calculate_demographic_similarity ::
  "artist_audience \<Rightarrow> string dict \<Rightarrow> demo_scores" where
  "calculate_demographic_similarity artist_demo brand_demo =
     \<lparr> score_age = calculate_age_similarity (age artist_demo) (dict_get brand_demo ''Age'' ''''),
       score_gender =
         calculate_gender_similarity (gender artist_demo)
           (dict_get brand_demo ''Gender'' ''All Genders''),
       score_income =
         calculate_income_similarity (income artist_demo)
           (dict_get brand_demo ''Household Income'' ''''),
       score_ethnicity =
         calculate_ethnicity_similarity (ethnicity artist_demo)
           (dict_get brand_demo ''Ethnicity'' '''') \<rparr>"

text \<open>\<^verbatim>\<open>np.mean\<close> and \<^verbatim>\<open>np.std\<close> (the population standard deviation) of a non-empty list.\<close>

definition np_mean :: "real list \<Rightarrow> real" where
  "np_mean xs = sum_list xs / real (length xs)"

definition np_std :: "real list \<Rightarrow> real" where
  "np_std xs = sqrt (np_mean (map (\<lambda>x. (x - np_mean xs)\<^sup>2) xs))"

record match_result =
  composite_score :: real
  demographic_score :: real
  attribute_score :: real
  geographic_score :: real
  age_similarity :: real
  gender_similarity :: real
  income_similarity :: real
  ethnicity_similarity :: real
  attribute_matches :: nat
  ci_lower :: real
  ci_upper :: real
  std_dev :: real

datatype py_error = AttributeError | JSONDecodeError

text \<open>A brand audience that is a list stands for its first element (the empty dictionary
  when the list is empty); one that is neither a list nor a dictionary stands for the empty
  dictionary. Reading a field of a first element that is not a dictionary raises.\<close>

definition calculate_match_score :: "artist \<Rightarrow> brand \<Rightarrow> py_error + match_result" where
  "calculate_match_score artist brand =
     (let artist_demo = audience_parsed artist;
          brand_demo =
            (case AudienceParsed brand of
               AudList [] \<Rightarrow> AudDict []
             | AudList (first # others) \<Rightarrow> first
             | AudDict d \<Rightarrow> AudDict d
             | AudOther \<Rightarrow> AudDict [])
      in case brand_demo of
           AudDict d \<Rightarrow>
             let scores = calculate_demographic_similarity artist_demo d;
                 (attr_score, attr_matches) =
                   calculate_attribute_affinity (attributes artist_demo) (Industries brand);
                 geo_score = (if dict_get d ''Region'' '''' \<noteq> '''' then 0.8 else 0.7);
                 composite =
                   score_age scores * 0.25 + score_gender scores * 0.15
                   + score_income scores * 0.20 + score_ethnicity scores * 0.10
                   + attr_score * 0.20 + geo_score * 0.10;
                 final_score = composite * 100;
                 demo_values =
                   [score_age scores, score_gender scores, score_income scores,
                    score_ethnicity scores];
                 std = np_std (demo_values @ [attr_score, geo_score]) * 10
             in Inr \<lparr> composite_score = final_score,
                      demographic_score = np_mean demo_values * 100,
                      attribute_score = attr_score * 100,
                      geographic_score = geo_score * 100,
                      age_similarity = score_age scores,
                      gender_similarity = score_gender scores,
                      income_similarity = score_income scores,
                      ethnicity_similarity = score_ethnicity scores,
                      attribute_matches = attr_matches,
                      ci_lower = max 0 (final_score - 1.96 * std),
                      ci_upper = min 100 (final_score + 1.96 * std),
                      std_dev = std \<rparr>
         | _ \<Rightarrow> Inl AttributeError)"

subsection \<open>Match tiers\<close>

text \<open>
  \<^verbatim>\<open>add_match_tiers\<close> reads the column of composite scores. The mean of an empty column and
  the sample standard deviation (pandas divides by \<open>n - 1\<close>) of a column with fewer than two
  rows are NaN, modelled as \<open>None\<close>; arithmetic on NaN gives NaN and every comparison with
  NaN is false.
\<close>

definition pd_mean :: "real list \<Rightarrow> real option" where
  "pd_mean xs = (if xs = [] then None else Some (sum_list xs / real (length xs)))"

definition pd_std :: "real list \<Rightarrow> real option" where
  "pd_std xs =
     (if length xs < 2 then None
      else
        let m = sum_list xs / real (length xs)
        in Some (sqrt (sum_list (map (\<lambda>x. (x - m)\<^sup>2) xs) / real (length xs - 1))))"

fun nan_add :: "real option \<Rightarrow> real option \<Rightarrow> real option" where
  "nan_add (Some a) (Some b) = Some (a + b)"
| "nan_add a b = None"

fun nan_scale :: "real \<Rightarrow> real option \<Rightarrow> real option" where
  "nan_scale k (Some a) = Some (k * a)"
| "nan_scale k None = None"

fun greater_nan :: "real \<Rightarrow> real option \<Rightarrow> bool" where
  "greater_nan x (Some a) = (x > a)"
| "greater_nan x None = False"

definition assign_tier :: "real option \<Rightarrow> real option \<Rightarrow> real \<Rightarrow> string" where
  "assign_tier mean_score std_score score =
     (if greater_nan score (nan_add mean_score (nan_scale 2 std_score)) then ''Exceptional''
      else if greater_nan score (nan_add mean_score std_score) then ''Strong''
      else if greater_nan score mean_score then ''Good''
      else ''Fair'')"

text \<open>The \<^verbatim>\<open>Match_Tier\<close> column that \<^verbatim>\<open>add_match_tiers\<close> adds to the results.\<close>

definition add_match_tiers :: "real list \<Rightarrow> string list" where
  "add_match_tiers scores =
     (let mean_score = pd_mean scores;
          std_score = pd_std scores
      in map (assign_tier mean_score std_score) scores)"

subsection \<open>Parsing a brand's audience attributes\<close>

text \<open>
  The cell of the \<^verbatim>\<open>AudienceAttributes\<close> column is a string, or missing (\<open>None\<close>).
  \<^verbatim>\<open>json.loads\<close> belongs to the Python library: it is a parameter \<open>loads\<close>, which gives
  \<open>None\<close> where the library raises.
\<close>

datatype json =
    JNull
  | JBool bool
  | JNumber real
  | JString string
  | JArray "json list"
  | JObject "json dict"

definition apostrophe :: char where
  "apostrophe = CHR 0x27"

definition double_quote :: char where
  "double_quote = CHR 0x22"

text \<open>The placeholder \<^verbatim>\<open>{'': ''}\<close> that the code compares the cell with.\<close>

definition empty_placeholder :: string where
  "empty_placeholder =
     [CHR ''{'', apostrophe, apostrophe, CHR '':'', CHR '' '', apostrophe, apostrophe, CHR ''}'']"

text \<open>\<^verbatim>\<open>audience_json.replace("'", '"')\<close>\<close>

definition replace_quotes :: "string \<Rightarrow> string" where
  "replace_quotes s = map (\<lambda>c. if c = apostrophe then double_quote else c) s"

text \<open>The body of the \<^verbatim>\<open>try\<close> block.\<close>

definition parse_brand_audience_body ::
  "(string \<Rightarrow> json option) \<Rightarrow> string option \<Rightarrow> py_error + json" where
  "parse_brand_audience_body loads audience_json =
     (case audience_json of
        None \<Rightarrow> Inr (JObject [])
      | Some text \<Rightarrow>
          if text = empty_placeholder then Inr (JObject [])
          else (case loads (replace_quotes text) of
                  None \<Rightarrow> Inl JSONDecodeError
                | Some parsed \<Rightarrow> Inr parsed))"

text \<open>The bare \<^verbatim>\<open>except\<close> turns every exception into the empty dictionary.\<close>

definition parse_brand_audience :: "(string \<Rightarrow> json option) \<Rightarrow> string option \<Rightarrow> json" where
  "parse_brand_audience loads audience_json =
     (case parse_brand_audience_body loads audience_json of
        Inl exn \<Rightarrow> JObject []
      | Inr parsed \<Rightarrow> parsed)"

section \<open>Bounds of the component scores\<close>

lemma overlap_nonneg: "0 \<le> overlap a b"
  by (simp add: overlap_def)

lemma overlap_le_max_overlap: "0 \<le> max_overlap a b \<Longrightarrow> overlap a b \<le> max_overlap a b"
  by (auto simp add: overlap_def max_overlap_def)

lemma overlap_score_bounds:
  assumes "0 < max_overlap a b"
  shows "0 \<le> real_of_int (overlap a b) / real_of_int (max_overlap a b)"
    and "real_of_int (overlap a b) / real_of_int (max_overlap a b) \<le> 1"
  using assms overlap_nonneg[of a b] overlap_le_max_overlap[of a b]
  by (simp_all add: divide_le_eq)

lemma age_loop_body_bounds:
  assumes "0 \<le> fst acc" and "fst acc \<le> snd acc"
  shows "0 \<le> fst (age_loop_body br item acc) \<and>
         fst (age_loop_body br item acc) \<le> snd (age_loop_body br item acc)"
proof -
  obtain g idx where item: "item = (g, idx)" by (cases item)
  obtain ts tw where acc: "acc = (ts, tw)" by (cases acc)
  have base: "0 \<le> ts" "ts \<le> tw" using assms acc by simp_all
  have step: "0 \<le> ts + real_of_int (overlap r br) / real_of_int (max_overlap r br) * (1 + max 0 idx)
     \<and> ts + real_of_int (overlap r br) / real_of_int (max_overlap r br) * (1 + max 0 idx)
        \<le> tw + (1 + max 0 idx)" if pos: "0 < max_overlap r br" for r
  proof -
    let ?os = "real_of_int (overlap r br) / real_of_int (max_overlap r br)"
    let ?w = "1 + max 0 idx"
    have w: "0 \<le> ?w" by simp
    have "0 \<le> ?os * ?w" using overlap_score_bounds(1)[OF pos] w by (rule mult_nonneg_nonneg)
    moreover have "?os * ?w \<le> 1 * ?w"
      using overlap_score_bounds(2)[OF pos] w by (rule mult_right_mono)
    ultimately show ?thesis using base by simp
  qed
  show ?thesis
    using base step
    by (simp add: age_loop_body_def item acc Let_def split: option.splits)
qed

lemma age_loop_bounds:
  "0 \<le> fst acc \<Longrightarrow> fst acc \<le> snd acc \<Longrightarrow>
   0 \<le> fst (age_loop br xs acc) \<and> fst (age_loop br xs acc) \<le> snd (age_loop br xs acc)"
proof (induction xs arbitrary: acc)
  case Nil
  then show ?case by simp
next
  case (Cons item rest)
  have "0 \<le> fst (age_loop_body br item acc) \<and>
        fst (age_loop_body br item acc) \<le> snd (age_loop_body br item acc)"
    using Cons.prems by (rule age_loop_body_bounds)
  then show ?case using Cons.IH by simp
qed

lemma calculate_age_similarity_bounds:
  "0 \<le> calculate_age_similarity a b \<and> calculate_age_similarity a b \<le> 1"
proof (cases "brand_age_range b")
  case None
  then show ?thesis by (simp add: calculate_age_similarity_def)
next
  case (Some br)
  obtain ts tw where l: "age_loop br a (0, 0) = (ts, tw)" by (cases "age_loop br a (0, 0)")
  have "0 \<le> ts \<and> ts \<le> tw" using age_loop_bounds[of "(0, 0)" br a] l by simp
  then show ?thesis using Some l by (simp add: calculate_age_similarity_def)
qed

lemma calculate_gender_similarity_bounds:
  "6 / 10 \<le> calculate_gender_similarity g b \<and> calculate_gender_similarity g b \<le> 9 / 10"
  by (simp add: calculate_gender_similarity_def Let_def)

lemma calculate_income_similarity_bounds:
  "0 \<le> calculate_income_similarity a b \<and> calculate_income_similarity a b \<le> 1"
  by (simp add: calculate_income_similarity_def Let_def)

lemma ethnicity_bonus_lower:
  fixes v :: real
  shows "0 < v \<Longrightarrow> 1 / 2 \<le> min 1 (5 / 10 + 3 / 10 * (1 + v))"
  by simp

lemma calculate_ethnicity_similarity_lower:
  "1 / 2 \<le> calculate_ethnicity_similarity a b"
proof (cases "a = [] \<or> b = ''''")
  case True
  then show ?thesis by (auto simp add: calculate_ethnicity_similarity_def)
next
  case False
  then show ?thesis
    unfolding calculate_ethnicity_similarity_def Let_def
    by (simp only: if_False split: if_split) (simp add: ethnicity_bonus_lower)
qed

lemma calculate_ethnicity_similarity_upper:
  "calculate_ethnicity_similarity a b \<le> 1"
  unfolding calculate_ethnicity_similarity_def Let_def
  by simp

lemma match_score_pos: "0 < match_score index"
  by (simp add: match_score_def)

lemma attr_key_loop_body_nonneg:
  "0 \<le> snd acc \<Longrightarrow> 0 \<le> snd (attr_key_loop_body attr index bil entry acc)"
  using match_score_pos[of index]
  by (cases entry; cases acc) (simp add: attr_key_loop_body_def split: option.splits)

lemma attr_key_loop_nonneg:
  "0 \<le> snd acc \<Longrightarrow> 0 \<le> snd (attr_key_loop attr index bil m acc)"
  by (induction m arbitrary: acc) (simp_all add: attr_key_loop_body_nonneg)

lemma attr_loop_nonneg:
  "0 \<le> snd acc \<Longrightarrow> 0 \<le> snd (attr_loop bil attrs acc)"
proof (induction attrs arbitrary: acc)
  case Nil
  then show ?case by simp
next
  case (Cons item rest)
  obtain attr index where item: "item = (attr, index)" by (cases item)
  show ?case using Cons attr_key_loop_nonneg[of acc attr index bil industry_attribute_map]
    by (simp add: item)
qed

lemma calculate_attribute_affinity_bounds:
  "0 \<le> fst (calculate_attribute_affinity attrs ind)
   \<and> fst (calculate_attribute_affinity attrs ind) \<le> 1"
proof (cases "attrs = [] \<or> ind = ''''")
  case True
  then show ?thesis by (auto simp add: calculate_attribute_affinity_def)
next
  case False
  obtain ms total where l: "attr_loop (lower ind) attrs ([], 0) = (ms, total)"
    by (cases "attr_loop (lower ind) attrs ([], 0)")
  have "0 \<le> total" using attr_loop_nonneg[of "([], 0)" "lower ind" attrs] l by simp
  then show ?thesis using False l by (simp add: calculate_attribute_affinity_def Let_def)
qed

lemma calculate_match_score_Inl:
  "calculate_match_score artist brand = Inl e \<Longrightarrow>
   \<exists>first others. AudienceParsed brand = AudList (first # others) \<and> (\<forall>d. first \<noteq> AudDict d)"
  by (auto simp add: calculate_match_score_def Let_def split_beta
        split: audience.splits list.splits)

lemma calculate_match_score_Inr:
  assumes "calculate_match_score artist brand = Inr r"
  shows "\<exists>d. composite_score r =
     (calculate_age_similarity (age (audience_parsed artist)) (dict_get d ''Age'' '''') * 0.25
      + calculate_gender_similarity (gender (audience_parsed artist))
          (dict_get d ''Gender'' ''All Genders'') * 0.15
      + calculate_income_similarity (income (audience_parsed artist))
          (dict_get d ''Household Income'' '''') * 0.20
      + calculate_ethnicity_similarity (ethnicity (audience_parsed artist))
          (dict_get d ''Ethnicity'' '''') * 0.10
      + fst (calculate_attribute_affinity (attributes (audience_parsed artist))
               (Industries brand)) * 0.20
      + (if dict_get d ''Region'' '''' \<noteq> '''' then 0.8 else 0.7) * 0.10) * 100"
  using assms
  by (auto simp add: calculate_match_score_def calculate_demographic_similarity_def Let_def
        split_beta split: audience.splits list.splits)

lemma weighted_sum_range:
  fixes a g i e t geo :: real
  assumes "0 \<le> a \<and> a \<le> 1" "6 / 10 \<le> g \<and> g \<le> 9 / 10" "0 \<le> i \<and> i \<le> 1"
    "1 / 2 \<le> e" "e \<le> 1" "0 \<le> t \<and> t \<le> 1" "7 / 10 \<le> geo" "geo \<le> 8 / 10"
  shows "0 \<le> (a * 0.25 + g * 0.15 + i * 0.20 + e * 0.10 + t * 0.20 + geo * 0.10) * 100
     \<and> (a * 0.25 + g * 0.15 + i * 0.20 + e * 0.10 + t * 0.20 + geo * 0.10) * 100 \<le> 100"
  using assms by simp

section \<open>Income levels\<close>

lemma income_brackets_levels:
  "(bracket, level) \<in> set income_brackets \<Longrightarrow> 1 \<le> level \<and> level \<le> 6"
  by (auto simp add: income_brackets_def)

lemma income_loop_body_invariant:
  assumes "0 \<le> snd acc" and "snd acc \<le> fst acc" and "fst acc \<le> 6 * snd acc"
  shows "0 \<le> snd (income_loop_body item acc)
       \<and> snd (income_loop_body item acc) \<le> fst (income_loop_body item acc)
       \<and> fst (income_loop_body item acc) \<le> 6 * snd (income_loop_body item acc)"
proof -
  obtain bracket index where item: "item = (bracket, index)" by (cases item)
  obtain al tw where acc: "acc = (al, tw)" by (cases acc)
  show ?thesis
  proof (cases "map_of income_brackets bracket")
    case None
    then show ?thesis using assms by (simp add: income_loop_body_def item acc)
  next
    case (Some level)
    have lv: "1 \<le> level" "level \<le> 6"
      using income_brackets_levels[OF map_of_SomeD[OF Some]] by simp_all
    let ?w = "1 + max 0 index"
    have w: "0 \<le> ?w" by simp
    have lo: "1 * ?w \<le> level * ?w" using lv(1) w by (rule mult_right_mono)
    have hi: "level * ?w \<le> 6 * ?w" using lv(2) w by (rule mult_right_mono)
    show ?thesis using assms lo hi w Some
      by (simp add: income_loop_body_def item acc Let_def)
  qed
qed

lemma income_loop_invariant:
  "0 \<le> snd acc \<Longrightarrow> snd acc \<le> fst acc \<Longrightarrow> fst acc \<le> 6 * snd acc \<Longrightarrow>
   0 \<le> snd (income_loop xs acc)
   \<and> snd (income_loop xs acc) \<le> fst (income_loop xs acc)
   \<and> fst (income_loop xs acc) \<le> 6 * snd (income_loop xs acc)"
proof (induction xs arbitrary: acc)
  case Nil
  then show ?case by simp
next
  case (Cons item rest)
  have "0 \<le> snd (income_loop_body item acc)
       \<and> snd (income_loop_body item acc) \<le> fst (income_loop_body item acc)
       \<and> fst (income_loop_body item acc) \<le> 6 * snd (income_loop_body item acc)"
    using Cons.prems by (rule income_loop_body_invariant)
  then show ?case using Cons.IH by simp
qed

lemma artist_income_level_range:
  "1 \<le> artist_income_level a \<and> artist_income_level a \<le> 6"
proof -
  obtain al tw where l: "income_loop a (0, 0) = (al, tw)" by (cases "income_loop a (0, 0)")
  have inv: "0 \<le> tw \<and> tw \<le> al \<and> al \<le> 6 * tw"
    using income_loop_invariant[of "(0, 0)" a] l by simp
  show ?thesis
  proof (cases "0 < tw")
    case True
    then show ?thesis using inv l
      by (simp add: artist_income_level_def le_divide_eq divide_le_eq)
  next
    case False
    then show ?thesis using l by (simp add: artist_income_level_def)
  qed
qed

lemma brand_income_level_range:
  "1 \<le> brand_income_level b \<and> brand_income_level b \<le> 6"
proof (cases "find (\<lambda>(bracket, level). contains b bracket) income_brackets")
  case None
  then show ?thesis by (simp add: brand_income_level_def)
next
  case (Some entry)
  obtain bracket level where e: "entry = (bracket, level)" by (cases entry)
  have "(bracket, level) \<in> set income_brackets"
    using Some e by (auto simp add: find_Some_iff in_set_conv_nth)
  then show ?thesis using Some e income_brackets_levels by (simp add: brand_income_level_def)
qed

lemma calculate_income_similarity_eq:
  "calculate_income_similarity a b
     = 1 - \<bar>artist_income_level a - brand_income_level b\<bar> / 5"
proof -
  have "\<bar>artist_income_level a - brand_income_level b\<bar> \<le> 5"
    using artist_income_level_range[of a] brand_income_level_range[of b] by linarith
  then show ?thesis
    by (simp add: calculate_income_similarity_def Let_def max_def min_def)
qed

section \<open>Age ranges and the age loop\<close>

lemma age_map_widths: "(age_str, r) \<in> set age_map \<Longrightarrow> 0 < snd r - fst r"
  by (auto simp add: age_map_def)

lemma brand_age_range_width:
  assumes "brand_age_range brand_age = Some r"
  shows "0 < snd r - fst r"
proof -
  obtain e where "find (\<lambda>(age_str, age_tuple). contains brand_age age_str) age_map = Some e"
    and "snd e = r"
    using assms by (auto simp add: brand_age_range_def)
  then have "(fst e, r) \<in> set age_map"
    by (auto simp add: find_Some_iff in_set_conv_nth)
  then show ?thesis by (rule age_map_widths)
qed

lemma artist_age_range_width:
  assumes "artist_age_range g = Some r"
  shows "0 < snd r - fst r"
proof -
  obtain e where "find (\<lambda>(age_str, (lo, hi)).
      list_ex (\<lambda>x. contains g (str_int x)) [lo..hi]) age_map = Some e"
    and "snd e = r"
    using assms by (auto simp add: artist_age_range_def)
  then have "(fst e, r) \<in> set age_map"
    by (auto simp add: find_Some_iff in_set_conv_nth)
  then show ?thesis by (rule age_map_widths)
qed

lemma max_overlap_pos:
  "0 < snd r - fst r \<Longrightarrow> 0 < snd br - fst br \<Longrightarrow> 0 < max_overlap r br"
  by (simp add: max_overlap_def)

lemma overlap_contained:
  "fst r \<le> fst br \<Longrightarrow> snd br \<le> snd r \<Longrightarrow> 0 < snd br - fst br \<Longrightarrow>
   overlap r br = max_overlap r br"
  by (simp add: overlap_def max_overlap_def)

lemma overlap_disjoint:
  "snd r < fst br \<or> snd br < fst r \<Longrightarrow> overlap r br = 0"
  by (auto simp add: overlap_def)

text \<open>What one entry of the artist's age table adds to the two accumulators.\<close>

lemma age_loop_body_unrecognised:
  "\<not> contains g ''Years Old'' \<or> artist_age_range g = None \<Longrightarrow>
   age_loop_body br (g, idx) acc = acc"
  by (cases acc) (auto simp add: age_loop_body_def)

lemma age_loop_body_recognised:
  "contains g ''Years Old'' \<Longrightarrow> artist_age_range g = Some r \<Longrightarrow> 0 < max_overlap r br \<Longrightarrow>
   age_loop_body br (g, idx) acc =
     (fst acc + real_of_int (overlap r br) / real_of_int (max_overlap r br) * (1 + max 0 idx),
      snd acc + (1 + max 0 idx))"
  by (cases acc) (simp add: age_loop_body_def Let_def)

lemma age_loop_weight_mono: "snd acc \<le> snd (age_loop br xs acc)"
proof (induction xs arbitrary: acc)
  case Nil
  show ?case by simp
next
  case (Cons item rest)
  obtain g idx where item: "item = (g, idx)" by (cases item)
  have "snd acc \<le> snd (age_loop_body br item acc)"
    by (cases acc) (simp add: age_loop_body_def item Let_def split: option.splits)
  also have "\<dots> \<le> snd (age_loop br rest (age_loop_body br item acc))" by (rule Cons.IH)
  finally show ?case by simp
qed

lemma age_loop_weight_gain:
  assumes "(g, idx) \<in> set xs" and "contains g ''Years Old''"
    and "artist_age_range g = Some r" and "0 < max_overlap r br"
  shows "snd acc + 1 \<le> snd (age_loop br xs acc)"
  using assms(1)
proof (induction xs arbitrary: acc)
  case Nil
  then show ?case by simp
next
  case (Cons item rest)
  show ?case
  proof (cases "item = (g, idx)")
    case True
    have "snd acc + 1 \<le> snd (age_loop_body br item acc)"
      using age_loop_body_recognised[OF assms(2-4), of idx acc] True by simp
    also have "\<dots> \<le> snd (age_loop br rest (age_loop_body br item acc))"
      by (rule age_loop_weight_mono)
    finally show ?thesis by simp
  next
    case False
    then have "(g, idx) \<in> set rest" using Cons.prems by simp
    then have "snd (age_loop_body br item acc) + 1
        \<le> snd (age_loop br rest (age_loop_body br item acc))"
      by (rule Cons.IH)
    moreover have "snd acc \<le> snd (age_loop_body br item acc)"
      using age_loop_weight_mono[of acc br "[item]"] by simp
    ultimately show ?thesis by simp
  qed
qed

lemma age_loop_all_full:
  assumes "\<And>g idx r. (g, idx) \<in> set xs \<Longrightarrow> contains g ''Years Old'' \<Longrightarrow>
      artist_age_range g = Some r \<Longrightarrow> 0 < max_overlap r br \<and> overlap r br = max_overlap r br"
  shows "fst (age_loop br xs acc) - snd (age_loop br xs acc) = fst acc - snd acc"
  using assms
proof (induction xs arbitrary: acc)
  case Nil
  show ?case by simp
next
  case (Cons item rest)
  obtain g idx where item: "item = (g, idx)" by (cases item)
  have step: "fst (age_loop_body br item acc) - snd (age_loop_body br item acc)
      = fst acc - snd acc"
  proof (cases "contains g ''Years Old'' \<and> artist_age_range g \<noteq> None")
    case False
    then have "\<not> contains g ''Years Old'' \<or> artist_age_range g = None" by blast
    then show ?thesis using age_loop_body_unrecognised[of g br idx acc] by (simp add: item)
  next
    case True
    then obtain r where r: "artist_age_range g = Some r" and yo: "contains g ''Years Old''"
      by auto
    have f: "0 < max_overlap r br \<and> overlap r br = max_overlap r br"
      using Cons.prems[of g idx r] yo r by (simp add: item)
    then show ?thesis
      using age_loop_body_recognised[OF yo r, of br idx acc] by (simp add: item)
  qed
  have "fst (age_loop br rest (age_loop_body br item acc))
      - snd (age_loop br rest (age_loop_body br item acc))
      = fst (age_loop_body br item acc) - snd (age_loop_body br item acc)"
    using Cons.prems by (intro Cons.IH) auto
  then show ?case using step by simp
qed

lemma age_loop_all_none:
  assumes "\<And>g idx r. (g, idx) \<in> set xs \<Longrightarrow> contains g ''Years Old'' \<Longrightarrow>
      artist_age_range g = Some r \<Longrightarrow> overlap r br = 0"
  shows "fst (age_loop br xs acc) = fst acc"
  using assms
proof (induction xs arbitrary: acc)
  case Nil
  show ?case by simp
next
  case (Cons item rest)
  obtain g idx where item: "item = (g, idx)" by (cases item)
  have step: "fst (age_loop_body br item acc) = fst acc"
  proof (cases "contains g ''Years Old'' \<and> artist_age_range g \<noteq> None")
    case False
    then have "\<not> contains g ''Years Old'' \<or> artist_age_range g = None" by blast
    then show ?thesis using age_loop_body_unrecognised[of g br idx acc] by (simp add: item)
  next
    case True
    then obtain r where r: "artist_age_range g = Some r" and yo: "contains g ''Years Old''"
      by auto
    have z: "overlap r br = 0" using Cons.prems[of g idx r] yo r by (simp add: item)
    show ?thesis
    proof (cases "0 < max_overlap r br")
      case True
      then show ?thesis
        using age_loop_body_recognised[OF yo r True, of idx acc] z by (simp add: item)
    next
      case False
      then show ?thesis using yo r
        by (cases acc) (simp add: age_loop_body_def item)
    qed
  qed
  have "fst (age_loop br rest (age_loop_body br item acc)) = fst (age_loop_body br item acc)"
    using Cons.prems by (intro Cons.IH) auto
  then show ?case using step by simp
qed

lemma age_loop_recognised_sums:
  assumes "\<And>g idx. (g, idx) \<in> set xs \<Longrightarrow> contains g ''Years Old'' \<Longrightarrow>
      \<exists>r. artist_age_range g = Some r \<and> 0 < max_overlap r br"
  shows "age_loop br xs acc =
     (fst acc + (\<Sum>(g, idx) \<leftarrow> filter (\<lambda>(g, idx). contains g ''Years Old'') xs.
                   real_of_int (overlap (the (artist_age_range g)) br)
                   / real_of_int (max_overlap (the (artist_age_range g)) br)
                   * (1 + max 0 idx)),
      snd acc + (\<Sum>(g, idx) \<leftarrow> filter (\<lambda>(g, idx). contains g ''Years Old'') xs.
                   1 + max 0 idx))"
  using assms
proof (induction xs arbitrary: acc)
  case Nil
  show ?case by simp
next
  case (Cons item rest)
  obtain g idx where item: "item = (g, idx)" by (cases item)
  have rest: "\<And>g idx. (g, idx) \<in> set rest \<Longrightarrow> contains g ''Years Old'' \<Longrightarrow>
      \<exists>r. artist_age_range g = Some r \<and> 0 < max_overlap r br"
    using Cons.prems by auto
  note IH = Cons.IH[OF rest, where acc = "age_loop_body br item acc"]
  show ?case
  proof (cases "contains g ''Years Old''")
    case False
    then have "age_loop_body br item acc = acc"
      using age_loop_body_unrecognised[of g br idx acc] by (simp add: item)
    then show ?thesis using IH False by (simp add: item)
  next
    case True
    then obtain r where r: "artist_age_range g = Some r" and p: "0 < max_overlap r br"
      using Cons.prems[of g idx] by (auto simp add: item)
    have "age_loop_body br item acc =
       (fst acc + real_of_int (overlap r br) / real_of_int (max_overlap r br) * (1 + max 0 idx),
        snd acc + (1 + max 0 idx))"
      using age_loop_body_recognised[OF True r p, of idx acc] by (simp add: item)
    then show ?thesis using IH True r by (simp add: item add.assoc)
  qed
qed

text \<open>
  What the lookup assigns to the labels of the eight buckets. It stops at the first bucket
  one of whose ages occurs in the label, and the buckets overlap: only three labels are
  given their own bucket. A table with one of the other five labels scores against the
  bucket the lookup found.
\<close>

lemma artist_age_range_of_labels:
  "map artist_age_range
     [''16-20 Years Old'', ''21-29 Years Old'', ''28-43 Years Old'', ''30-39 Years Old'',
      ''40-49 Years Old'', ''44-59 Years Old'', ''50-59 Years Old'', ''60+ Years Old'']
   = [Some (16, 20), Some (21, 29), Some (21, 29), Some (28, 43),
      Some (28, 43), Some (40, 49), Some (44, 59), Some (60, 75)]"
  by code_simp

lemma age_similarity_mislabelled:
  "calculate_age_similarity [(''40-49 Years Old'', 1)] ''40-49'' = 1 / 3
   \<and> calculate_age_similarity [(''40-49 Years Old'', 1)] ''30-39'' = 1"
  by code_simp

section \<open>Tiers and parsing\<close>

lemma pd_std_nonneg:
  assumes "pd_std xs = Some s"
  shows "0 \<le> s"
proof -
  define v where
    "v = sum_list (map (\<lambda>x. (x - sum_list xs / real (length xs))\<^sup>2) xs)
           / real (length xs - 1)"
  have v: "0 \<le> v"
    unfolding v_def by (intro divide_nonneg_nonneg sum_list_nonneg) auto
  have "s = sqrt v"
  proof (cases "length xs < 2")
    case True
    then show ?thesis using assms by (simp add: pd_std_def)
  next
    case False
    then have "pd_std xs = Some (sqrt v)"
      unfolding pd_std_def Let_def v_def by (simp only: if_False)
    then show ?thesis using assms by simp
  qed
  then show ?thesis using v by simp
qed

lemma assign_tier_exceptional:
  "m + 2 * s < score \<Longrightarrow> assign_tier (Some m) (Some s) score = ''Exceptional''"
  by (simp add: assign_tier_def)

lemma assign_tier_at_mean:
  "(\<And>s. std_score = Some s \<Longrightarrow> 0 \<le> s) \<Longrightarrow> assign_tier (Some score) std_score score = ''Fair''"
  by (cases std_score) (simp_all add: assign_tier_def)

lemma replace_quotes_placeholder:
  "replace_quotes empty_placeholder =
     [CHR ''{'', double_quote, double_quote, CHR '':'', CHR '' '',
      double_quote, double_quote, CHR ''}'']"
  by (simp add: replace_quotes_def empty_placeholder_def apostrophe_def double_quote_def)

section \<open>Properties\<close>

text \<open>
  C1. For every artist and every brand whose parsed audience is a dictionary, the composite
  match score that \<^verbatim>\<open>calculate_match_score\<close> returns lies in the closed interval from 0 to
  100. The function returns a score for every brand but one whose audience is a list with a
  first element that is not a dictionary, where reading a field raises.
\<close>

theorem composite_score_range:
  "(case calculate_match_score artist brand of
      Inr r \<Rightarrow> 0 \<le> composite_score r \<and> composite_score r \<le> 100
    | Inl e \<Rightarrow> (\<exists>first others. AudienceParsed brand = AudList (first # others)
                      \<and> (\<forall>d. first \<noteq> AudDict d)))"
proof (cases "calculate_match_score artist brand")
  case (Inl e)
  then show ?thesis using calculate_match_score_Inl[OF Inl] by simp
next
  case (Inr r)
  let ?ad = "audience_parsed artist"
  obtain d where c: "composite_score r =
     (calculate_age_similarity (age ?ad) (dict_get d ''Age'' '''') * 0.25
      + calculate_gender_similarity (gender ?ad) (dict_get d ''Gender'' ''All Genders'') * 0.15
      + calculate_income_similarity (income ?ad) (dict_get d ''Household Income'' '''') * 0.20
      + calculate_ethnicity_similarity (ethnicity ?ad) (dict_get d ''Ethnicity'' '''') * 0.10
      + fst (calculate_attribute_affinity (attributes ?ad) (Industries brand)) * 0.20
      + (if dict_get d ''Region'' '''' \<noteq> '''' then 0.8 else 0.7) * 0.10) * 100"
    using calculate_match_score_Inr[OF Inr] by blast
  have g: "7 / 10 \<le> (if dict_get d ''Region'' '''' \<noteq> '''' then 0.8 else 0.7 :: real)"
    "(if dict_get d ''Region'' '''' \<noteq> '''' then 0.8 else 0.7 :: real) \<le> 8 / 10"
    by simp_all
  have "0 \<le> composite_score r \<and> composite_score r \<le> 100"
    unfolding c
    by (rule weighted_sum_range[OF calculate_age_similarity_bounds
          calculate_gender_similarity_bounds calculate_income_similarity_bounds
          calculate_ethnicity_similarity_lower calculate_ethnicity_similarity_upper
          calculate_attribute_affinity_bounds g])
  then show ?thesis using Inr by simp
qed

text \<open>
  C2. For every artist and every brand, the composite score that
  \<^verbatim>\<open>calculate_match_score\<close> returns is 100 times the weighted sum of the six component
  scores of the result, with the weights 0.25 (age), 0.15 (gender), 0.20 (income),
  0.10 (ethnicity), 0.20 (attributes) and 0.10 (geography), which sum to 1. The components
  are the scores of the component functions on the dictionary the brand's audience stands
  for: the audience itself, the first element of a list, or the empty dictionary for an
  empty list and for any other value. No score is returned only where the first element of
  a list is not a dictionary.
\<close>

theorem composite_score_weighted_sum:
  "(case calculate_match_score artist brand of
      Inr r \<Rightarrow>
        composite_score r
          = 100 * (0.25 * age_similarity r + 0.15 * gender_similarity r
                   + 0.20 * income_similarity r + 0.10 * ethnicity_similarity r
                   + 0.20 * (attribute_score r / 100) + 0.10 * (geographic_score r / 100))
        \<and> (\<exists>d. (AudienceParsed brand = AudDict d
                  \<or> (\<exists>others. AudienceParsed brand = AudList (AudDict d # others))
                  \<or> d = [] \<and> (AudienceParsed brand = AudList [] \<or> AudienceParsed brand = AudOther))
              \<and> age_similarity r
                  = calculate_age_similarity (age (audience_parsed artist))
                      (dict_get d ''Age'' '''')
              \<and> gender_similarity r
                  = calculate_gender_similarity (gender (audience_parsed artist))
                      (dict_get d ''Gender'' ''All Genders'')
              \<and> income_similarity r
                  = calculate_income_similarity (income (audience_parsed artist))
                      (dict_get d ''Household Income'' '''')
              \<and> ethnicity_similarity r
                  = calculate_ethnicity_similarity (ethnicity (audience_parsed artist))
                      (dict_get d ''Ethnicity'' '''')
              \<and> attribute_score r
                  = fst (calculate_attribute_affinity (attributes (audience_parsed artist))
                           (Industries brand)) * 100
              \<and> geographic_score r
                  = (if dict_get d ''Region'' '''' \<noteq> '''' then 0.8 else 0.7) * 100)
    | Inl e \<Rightarrow> (\<exists>first others. AudienceParsed brand = AudList (first # others)
                      \<and> (\<forall>d. first \<noteq> AudDict d)))
   \<and> (0.25 + 0.15 + 0.20 + 0.10 + 0.20 + 0.10 :: real) = 1"
proof -
  have w: "(0.25 + 0.15 + 0.20 + 0.10 + 0.20 + 0.10 :: real) = 1" by simp
  show ?thesis
  proof (cases "calculate_match_score artist brand")
    case (Inl e)
    then show ?thesis using calculate_match_score_Inl[OF Inl] w by simp
  next
    case (Inr r)
    obtain d where shape: "AudienceParsed brand = AudDict d
                  \<or> (\<exists>others. AudienceParsed brand = AudList (AudDict d # others))
                  \<or> d = [] \<and> (AudienceParsed brand = AudList [] \<or> AudienceParsed brand = AudOther)"
      and eff: "(case AudienceParsed brand of
               AudList [] \<Rightarrow> AudDict []
             | AudList (first # others) \<Rightarrow> first
             | AudDict d \<Rightarrow> AudDict d
             | AudOther \<Rightarrow> AudDict []) = AudDict d"
      using Inr
      by (auto simp add: calculate_match_score_def Let_def split: audience.splits list.splits)
    have r: "Inr r = (\<lambda>x. calculate_match_score artist x) brand" using Inr by simp
    have fields:
      "composite_score r
          = 100 * (0.25 * age_similarity r + 0.15 * gender_similarity r
                   + 0.20 * income_similarity r + 0.10 * ethnicity_similarity r
                   + 0.20 * (attribute_score r / 100) + 0.10 * (geographic_score r / 100))
       \<and> age_similarity r
            = calculate_age_similarity (age (audience_parsed artist)) (dict_get d ''Age'' '''')
       \<and> gender_similarity r
            = calculate_gender_similarity (gender (audience_parsed artist))
                (dict_get d ''Gender'' ''All Genders'')
       \<and> income_similarity r
            = calculate_income_similarity (income (audience_parsed artist))
                (dict_get d ''Household Income'' '''')
       \<and> ethnicity_similarity r
            = calculate_ethnicity_similarity (ethnicity (audience_parsed artist))
                (dict_get d ''Ethnicity'' '''')
       \<and> attribute_score r
            = fst (calculate_attribute_affinity (attributes (audience_parsed artist))
                     (Industries brand)) * 100
       \<and> geographic_score r
            = (if dict_get d ''Region'' '''' \<noteq> '''' then 0.8 else 0.7) * 100"
      using Inr eff
      by (auto simp add: calculate_match_score_def calculate_demographic_similarity_def
            Let_def split_beta)
    show ?thesis using Inr shape fields w by auto
  qed
qed

text \<open>
  C3. In the tier column that \<^verbatim>\<open>add_match_tiers\<close> computes from the scores, with their mean
  \<open>m\<close> and their (sample) standard deviation \<open>s\<close>: a score greater than \<open>m + 2 s\<close> is
  labelled "Exceptional", and a score equal to the mean is labelled "Fair".
\<close>

theorem tier_assignment:
  "i < length scores \<longrightarrow>
     (\<forall>m s. pd_mean scores = Some m \<and> pd_std scores = Some s \<and> m + 2 * s < scores ! i
        \<longrightarrow> add_match_tiers scores ! i = ''Exceptional'')
     \<and> (pd_mean scores = Some (scores ! i) \<longrightarrow> add_match_tiers scores ! i = ''Fair'')"
proof (intro impI conjI allI)
  fix m s
  assume i: "i < length scores"
    and h: "pd_mean scores = Some m \<and> pd_std scores = Some s \<and> m + 2 * s < scores ! i"
  have "add_match_tiers scores ! i = assign_tier (Some m) (Some s) (scores ! i)"
    using i h by (simp add: add_match_tiers_def)
  then show "add_match_tiers scores ! i = ''Exceptional''"
    using h by (simp add: assign_tier_exceptional)
next
  assume i: "i < length scores" and h: "pd_mean scores = Some (scores ! i)"
  have "add_match_tiers scores ! i = assign_tier (Some (scores ! i)) (pd_std scores) (scores ! i)"
    using i h by (simp add: add_match_tiers_def)
  then show "add_match_tiers scores ! i = ''Fair''"
    using assign_tier_at_mean[of "pd_std scores" "scores ! i"] pd_std_nonneg[of scores]
    by simp
qed

theorem tier_assignment_witness:
  "add_match_tiers [0, 0, 0, 0, 0, 0, 0, 0, 9] ! 8 = ''Exceptional''
   \<and> add_match_tiers [1, 2, 3] ! 1 = ''Fair''"
proof -
  have m1: "pd_mean [0, 0, 0, 0, 0, 0, 0, 0, 9] = Some 1" by (simp add: pd_mean_def)
  have s1: "pd_std [0, 0, 0, 0, 0, 0, 0, 0, 9] = Some 3" by (simp add: pd_std_def)
  have m2: "pd_mean [1, 2, 3] = Some 2" by (simp add: pd_mean_def)
  have "add_match_tiers [0, 0, 0, 0, 0, 0, 0, 0, 9] ! 8 = ''Exceptional''"
    using tier_assignment[of 8 "[0, 0, 0, 0, 0, 0, 0, 0, 9]"] m1 s1 by simp
  moreover have "add_match_tiers [1, 2, 3] ! 1 = ''Fair''"
    using tier_assignment[of 1 "[1, 2, 3]"] m2 by simp
  ultimately show ?thesis by simp
qed

text \<open>
  C4 (as stated, fails). The age similarity is not decided by the artist's dominant age
  group: it is the weighted mean of the overlap ratios of all recognised groups. For an
  artist with the groups "21-29 Years Old" (index 2) and "60+ Years Old" (index 0), the
  brand range 21-29 equals the range of the dominant group and the result is 0.75, not 1;
  the brand range 60+ does not overlap the dominant group and the result is 0.25, not 0.
\<close>

theorem age_similarity_dominant_counterexample:
  "calculate_age_similarity [(''21-29 Years Old'', 2), (''60+ Years Old'', 0)] ''21-29'' = 0.75
   \<and> \<not> (calculate_age_similarity [(''21-29 Years Old'', 2), (''60+ Years Old'', 0)] ''21-29'' = 1)
   \<and> artist_age_range ''21-29 Years Old'' = Some (21, 29)
   \<and> artist_age_range ''60+ Years Old'' = Some (60, 75)
   \<and> brand_age_range ''21-29'' = Some (21, 29)
   \<and> calculate_age_similarity [(''21-29 Years Old'', 2), (''60+ Years Old'', 0)] ''60+'' = 0.25
   \<and> \<not> (calculate_age_similarity [(''21-29 Years Old'', 2), (''60+ Years Old'', 0)] ''60+'' = 0)
   \<and> brand_age_range ''60+'' = Some (60, 75)"
  by code_simp

text \<open>
  C4 (amended). Let the brand's age text name a bucket, and let every group of the artist's
  age table with "Years Old" in its label be labelled with a bucket of the age map that the
  lookup assigns to it, with at least one such group. Then \<^verbatim>\<open>calculate_age_similarity\<close>
  returns the mean of the overlap ratios of these groups, weighted by 1 + max(0, index);
  it returns 1 if the bucket of every group contains the brand's range, and 0 if the bucket
  of every group lies apart from the brand's range.
\<close>

theorem age_similarity_weighted_mean:
  assumes brand: "brand_age_range brand_age = Some brand_range"
    and labelled: "\<forall>(g, idx) \<in> set artist_age. contains g ''Years Old'' \<longrightarrow>
        (\<exists>age_str r. (age_str, r) \<in> set age_map \<and> g = age_str @ '' Years Old''
           \<and> artist_age_range g = Some r)"
    and some: "(g0, idx0) \<in> set artist_age" "contains g0 ''Years Old''"
  shows "calculate_age_similarity artist_age brand_age =
           (\<Sum>(g, idx) \<leftarrow> filter (\<lambda>(g, idx). contains g ''Years Old'') artist_age.
               real_of_int (overlap (the (artist_age_range g)) brand_range)
               / real_of_int (max_overlap (the (artist_age_range g)) brand_range)
               * (1 + max 0 idx))
           / (\<Sum>(g, idx) \<leftarrow> filter (\<lambda>(g, idx). contains g ''Years Old'') artist_age.
               1 + max 0 idx)
      \<and> ((\<forall>(g, idx) \<in> set artist_age. \<forall>age_str r.
              (age_str, r) \<in> set age_map \<and> g = age_str @ '' Years Old''
            \<longrightarrow> fst r \<le> fst brand_range \<and> snd brand_range \<le> snd r)
          \<longrightarrow> calculate_age_similarity artist_age brand_age = 1)
      \<and> ((\<forall>(g, idx) \<in> set artist_age. \<forall>age_str r.
              (age_str, r) \<in> set age_map \<and> g = age_str @ '' Years Old''
            \<longrightarrow> snd r < fst brand_range \<or> snd brand_range < fst r)
          \<longrightarrow> calculate_age_similarity artist_age brand_age = 0)"
proof -
  have bw: "0 < snd brand_range - fst brand_range" using brand by (rule brand_age_range_width)
  have lab: "\<exists>age_str r. (age_str, r) \<in> set age_map \<and> g = age_str @ '' Years Old''
           \<and> artist_age_range g = Some r"
    if "(g, idx) \<in> set artist_age" "contains g ''Years Old''" for g idx
    using bspec[OF labelled that(1)] that(2) by simp
  have rec: "\<exists>r. artist_age_range g = Some r \<and> 0 < max_overlap r brand_range"
    if member: "(g, idx) \<in> set artist_age" and years: "contains g ''Years Old''" for g idx
  proof -
    obtain r where r: "artist_age_range g = Some r" using lab[OF member years] by blast
    then show ?thesis
      using max_overlap_pos[OF artist_age_range_width[OF r] bw] by blast
  qed
  obtain r0 where r0: "artist_age_range g0 = Some r0" and p0: "0 < max_overlap r0 brand_range"
    using rec[OF some] by blast
  obtain ts tw where l: "age_loop brand_range artist_age (0, 0) = (ts, tw)"
    by (cases "age_loop brand_range artist_age (0, 0)")
  have tw: "1 \<le> tw"
    using age_loop_weight_gain[OF some r0 p0, of "(0, 0)"] l by simp
  have res: "calculate_age_similarity artist_age brand_age = ts / tw"
    using brand l tw by (simp add: calculate_age_similarity_def)
  have mean: "calculate_age_similarity artist_age brand_age =
           (\<Sum>(g, idx) \<leftarrow> filter (\<lambda>(g, idx). contains g ''Years Old'') artist_age.
               real_of_int (overlap (the (artist_age_range g)) brand_range)
               / real_of_int (max_overlap (the (artist_age_range g)) brand_range)
               * (1 + max 0 idx))
           / (\<Sum>(g, idx) \<leftarrow> filter (\<lambda>(g, idx). contains g ''Years Old'') artist_age.
               1 + max 0 idx)"
    using age_loop_recognised_sums[of artist_age brand_range "(0, 0)", OF rec] l res by simp
  have full: "calculate_age_similarity artist_age brand_age = 1"
    if h: "\<forall>(g, idx) \<in> set artist_age. \<forall>age_str r.
              (age_str, r) \<in> set age_map \<and> g = age_str @ '' Years Old''
            \<longrightarrow> fst r \<le> fst brand_range \<and> snd brand_range \<le> snd r"
  proof -
    have "fst (age_loop brand_range artist_age (0, 0)) - snd (age_loop brand_range artist_age (0, 0))
        = fst (0 :: real, 0 :: real) - snd (0 :: real, 0 :: real)"
    proof (rule age_loop_all_full)
      fix g idx r
      assume a: "(g, idx) \<in> set artist_age" "contains g ''Years Old''" "artist_age_range g = Some r"
      have "\<forall>age_str r. (age_str, r) \<in> set age_map \<and> g = age_str @ '' Years Old''
            \<longrightarrow> fst r \<le> fst brand_range \<and> snd brand_range \<le> snd r"
        using bspec[OF h a(1)] by (simp only: prod.case)
      moreover obtain age_str r' where "(age_str, r') \<in> set age_map"
        "g = age_str @ '' Years Old''" "artist_age_range g = Some r'"
        using lab[OF a(1,2)] by blast
      moreover have "r' = r" using calculation(4) a(3) by simp
      ultimately have c: "fst r \<le> fst brand_range \<and> snd brand_range \<le> snd r"
        by blast
      show "0 < max_overlap r brand_range \<and> overlap r brand_range = max_overlap r brand_range"
        using max_overlap_pos[OF artist_age_range_width[OF a(3)] bw]
          overlap_contained[of r brand_range] c bw by simp
    qed
    then have "ts = tw" using l by simp
    then show ?thesis using res tw by simp
  qed
  have none: "calculate_age_similarity artist_age brand_age = 0"
    if h: "\<forall>(g, idx) \<in> set artist_age. \<forall>age_str r.
              (age_str, r) \<in> set age_map \<and> g = age_str @ '' Years Old''
            \<longrightarrow> snd r < fst brand_range \<or> snd brand_range < fst r"
  proof -
    have "fst (age_loop brand_range artist_age (0, 0)) = fst (0 :: real, 0 :: real)"
    proof (rule age_loop_all_none)
      fix g idx r
      assume a: "(g, idx) \<in> set artist_age" "contains g ''Years Old''" "artist_age_range g = Some r"
      have "\<forall>age_str r. (age_str, r) \<in> set age_map \<and> g = age_str @ '' Years Old''
            \<longrightarrow> snd r < fst brand_range \<or> snd brand_range < fst r"
        using bspec[OF h a(1)] by (simp only: prod.case)
      moreover obtain age_str r' where "(age_str, r') \<in> set age_map"
        "g = age_str @ '' Years Old''" "artist_age_range g = Some r'"
        using lab[OF a(1,2)] by blast
      moreover have "r' = r" using calculation(4) a(3) by simp
      ultimately have "snd r < fst brand_range \<or> snd brand_range < fst r"
        by blast
      then show "overlap r brand_range = 0" by (rule overlap_disjoint)
    qed
    then have "ts = 0" using l by simp
    then show ?thesis using res by simp
  qed
  show ?thesis using mean full none by blast
qed

theorem age_similarity_weighted_mean_witness:
  "calculate_age_similarity [(''21-29 Years Old'', 2), (''60+ Years Old'', 0)] ''Adults 21-29''
     = (1 * 3 + 0 * 1) / (3 + 1)
   \<and> calculate_age_similarity [(''21-29 Years Old'', 2), (''Median Age'', 31)] ''Adults 21-29'' = 1
   \<and> calculate_age_similarity [(''16-20 Years Old'', 1), (''21-29 Years Old'', 2)] ''60+'' = 0"
proof -
  have b1: "brand_age_range ''Adults 21-29'' = Some (21, 29)" by code_simp
  have b2: "brand_age_range ''60+'' = Some (60, 75)" by code_simp
  have y: "contains ''16-20 Years Old'' ''Years Old''" "contains ''21-29 Years Old'' ''Years Old''"
    "contains ''60+ Years Old'' ''Years Old''" "\<not> contains ''Median Age'' ''Years Old''"
    by code_simp+
  have a: "artist_age_range ''16-20 Years Old'' = Some (16, 20)"
    "artist_age_range ''21-29 Years Old'' = Some (21, 29)"
    "artist_age_range ''60+ Years Old'' = Some (60, 75)"
    by code_simp+
  have m: "(''16-20'', (16, 20)) \<in> set age_map" "(''21-29'', (21, 29)) \<in> set age_map"
    "(''60+'', (60, 75)) \<in> set age_map"
    by (simp_all add: age_map_def)
  have l1: "\<exists>age_str r. (age_str, r) \<in> set age_map
      \<and> ''16-20 Years Old'' = age_str @ '' Years Old''
      \<and> artist_age_range ''16-20 Years Old'' = Some r"
    using m(1) a(1) by (intro exI[of _ "''16-20''"] exI[of _ "(16, 20)"]) simp
  have l2: "\<exists>age_str r. (age_str, r) \<in> set age_map
      \<and> ''21-29 Years Old'' = age_str @ '' Years Old''
      \<and> artist_age_range ''21-29 Years Old'' = Some r"
    using m(2) a(2) by (intro exI[of _ "''21-29''"] exI[of _ "(21, 29)"]) simp
  have l3: "\<exists>age_str r. (age_str, r) \<in> set age_map
      \<and> ''60+ Years Old'' = age_str @ '' Years Old''
      \<and> artist_age_range ''60+ Years Old'' = Some r"
    using m(3) a(3) by (intro exI[of _ "''60+''"] exI[of _ "(60, 75)"]) simp
  have o: "overlap (21, 29) (21, 29) = 8" "max_overlap (21, 29) (21, 29) = 8"
    "overlap (60, 75) (21, 29) = 0" "max_overlap (60, 75) (21, 29) = 8"
    by (simp_all add: overlap_def max_overlap_def)
  have "calculate_age_similarity [(''21-29 Years Old'', 2), (''60+ Years Old'', 0)]
      ''Adults 21-29'' = (1 * 3 + 0 * 1) / (3 + 1)"
    using age_similarity_weighted_mean[where brand_age = "''Adults 21-29''"
        and brand_range = "(21, 29)" and ?g0.0 = "''21-29 Years Old''" and ?idx0.0 = 2
        and artist_age = "[(''21-29 Years Old'', 2), (''60+ Years Old'', 0)]"]
      b1 l2 l3
    by (simp add: y a o)
  moreover have "calculate_age_similarity [(''21-29 Years Old'', 2), (''Median Age'', 31)]
      ''Adults 21-29'' = 1"
    using age_similarity_weighted_mean[where brand_age = "''Adults 21-29''"
        and brand_range = "(21, 29)" and ?g0.0 = "''21-29 Years Old''" and ?idx0.0 = 2
        and artist_age = "[(''21-29 Years Old'', 2), (''Median Age'', 31)]"]
      b1 l2
    by (simp add: y a o age_map_def)
  moreover have "calculate_age_similarity [(''16-20 Years Old'', 1), (''21-29 Years Old'', 2)]
      ''60+'' = 0"
    using age_similarity_weighted_mean[where brand_age = "''60+''"
        and brand_range = "(60, 75)" and ?g0.0 = "''21-29 Years Old''" and ?idx0.0 = 2
        and artist_age = "[(''16-20 Years Old'', 1), (''21-29 Years Old'', 2)]"]
      b2 l1 l2
    by (simp add: y a age_map_def)
  ultimately show ?thesis by simp
qed

text \<open>
  C5. When the artist's weighted income level equals the brand's level, the income
  similarity is 1; for a fixed brand, the similarity decreases (strictly) as the distance of
  the artist's level from the brand's level grows.
\<close>

theorem income_similarity_distance:
  "(artist_income_level a = brand_income_level b \<longrightarrow> calculate_income_similarity a b = 1)
   \<and> (\<bar>artist_income_level a - brand_income_level b\<bar>
        \<le> \<bar>artist_income_level a' - brand_income_level b\<bar>
      \<longrightarrow> calculate_income_similarity a' b \<le> calculate_income_similarity a b)
   \<and> (\<bar>artist_income_level a - brand_income_level b\<bar>
        < \<bar>artist_income_level a' - brand_income_level b\<bar>
      \<longrightarrow> calculate_income_similarity a' b < calculate_income_similarity a b)"
  by (simp add: calculate_income_similarity_eq)

theorem income_similarity_distance_witness:
  "artist_income_level [(''$50K-$74K'', 0)] = brand_income_level ''$50K-$74K''
   \<and> calculate_income_similarity [(''$50K-$74K'', 0)] ''$50K-$74K'' = 1
   \<and> \<bar>artist_income_level [(''$50K-$74K'', 0)] - brand_income_level ''$50K-$74K''\<bar>
       < \<bar>artist_income_level [(''$125K or More'', 1)] - brand_income_level ''$50K-$74K''\<bar>
   \<and> calculate_income_similarity [(''$125K or More'', 1)] ''$50K-$74K''
       < calculate_income_similarity [(''$50K-$74K'', 0)] ''$50K-$74K''"
proof -
  have l1: "artist_income_level [(''$50K-$74K'', 0)] = 3" by code_simp
  have l2: "artist_income_level [(''$125K or More'', 1)] = 6" by code_simp
  have l3: "brand_income_level ''$50K-$74K'' = 3" by code_simp
  show ?thesis
    using income_similarity_distance[of "[(''$50K-$74K'', 0)]" "''$50K-$74K''"
        "[(''$125K or More'', 1)]"]
    by (simp add: l1 l2 l3)
qed

text \<open>
  C6. For an artist whose attributes are exactly "hard seltzer" with index +2.0 and a brand
  of industry "Beer, Wine, Liquor", \<^verbatim>\<open>calculate_attribute_affinity\<close> returns an affinity
  greater than 0.3 and at least one match (it returns the affinity 1 and one match).
\<close>

theorem attribute_affinity_hard_seltzer:
  "calculate_attribute_affinity [(''hard seltzer'', 2.0)] ''Beer, Wine, Liquor'' = (1, 1)
   \<and> 0.3 < fst (calculate_attribute_affinity [(''hard seltzer'', 2.0)] ''Beer, Wine, Liquor'')
   \<and> 1 \<le> snd (calculate_attribute_affinity [(''hard seltzer'', 2.0)] ''Beer, Wine, Liquor'')"
  by code_simp

text \<open>
  C7. \<^verbatim>\<open>classify_seniority_level\<close> maps "Chief Marketing Officer" to "C-Level",
  "Regional Sales Manager" to "Manager" and a missing title to "Unknown".
\<close>

theorem classify_seniority_level_examples:
  "classify_seniority_level (Some ''Chief Marketing Officer'') = ''C-Level''
   \<and> classify_seniority_level (Some ''Regional Sales Manager'') = ''Manager''
   \<and> classify_seniority_level None = ''Unknown''"
  by code_simp

text \<open>
  C8 (as stated, fails). With an empty artist income table and an empty brand income text,
  both levels default to 3.5 and the income similarity is 1; with the artist level 3 and an
  unrecognised brand text it is 0.9. Neither lies between 0.5 and 0.75.
\<close>

theorem missing_income_counterexample:
  "calculate_income_similarity [] '''' = 1
   \<and> \<not> (0.5 \<le> calculate_income_similarity [] ''''
         \<and> calculate_income_similarity [] '''' \<le> 0.75)
   \<and> calculate_income_similarity [(''$50K-$74K'', 0)] ''unknown'' = 0.9
   \<and> \<not> (0.5 \<le> calculate_income_similarity [(''$50K-$74K'', 0)] ''unknown''
         \<and> calculate_income_similarity [(''$50K-$74K'', 0)] ''unknown'' \<le> 0.75)"
  by code_simp

text \<open>
  C8 (amended). A missing or unrecognised input gives the age similarity 0.5 and the
  ethnicity similarity 0.7 (empty artist table or empty brand text) or 0.5 (a brand text
  that names none of the four groups). For income the missing side is replaced by the
  middle level 3.5: the similarity is 1 minus a fifth of the distance of the other side's
  level from 3.5, and it lies between 0.5 and 1.
\<close>

theorem missing_input_scores:
  "((\<forall>(age_str, age_tuple) \<in> set age_map. \<not> contains brand_age age_str) \<or> artist_age = []
      \<longrightarrow> calculate_age_similarity artist_age brand_age = 0.5)
   \<and> (artist_ethnicity = [] \<or> brand_ethnicity = ''''
      \<longrightarrow> calculate_ethnicity_similarity artist_ethnicity brand_ethnicity = 0.7)
   \<and> (artist_ethnicity \<noteq> [] \<and> brand_ethnicity \<noteq> ''''
       \<and> \<not> contains brand_ethnicity ''White'' \<and> \<not> contains brand_ethnicity ''Hispanic''
       \<and> \<not> contains brand_ethnicity ''African American''
       \<and> \<not> contains brand_ethnicity ''Asian''
      \<longrightarrow> calculate_ethnicity_similarity artist_ethnicity brand_ethnicity = 0.5)
   \<and> (artist_income = []
      \<longrightarrow> calculate_income_similarity artist_income brand_income
            = 1 - \<bar>3.5 - brand_income_level brand_income\<bar> / 5
          \<and> 0.5 \<le> calculate_income_similarity artist_income brand_income
          \<and> calculate_income_similarity artist_income brand_income \<le> 1)
   \<and> ((\<forall>(bracket, level) \<in> set income_brackets. \<not> contains brand_income bracket)
      \<longrightarrow> calculate_income_similarity artist_income brand_income
            = 1 - \<bar>artist_income_level artist_income - 3.5\<bar> / 5
          \<and> 0.5 \<le> calculate_income_similarity artist_income brand_income
          \<and> calculate_income_similarity artist_income brand_income \<le> 1)"
proof -
  have age1: "calculate_age_similarity artist_age brand_age = 0.5"
    if "\<forall>(age_str, age_tuple) \<in> set age_map. \<not> contains brand_age age_str"
  proof -
    have "find (\<lambda>(age_str, age_tuple). contains brand_age age_str) age_map = None"
      using that by (auto simp add: find_None_iff)
    then show ?thesis by (simp add: calculate_age_similarity_def brand_age_range_def)
  qed
  have age2: "calculate_age_similarity [] brand_age = 0.5"
    by (simp add: calculate_age_similarity_def split: option.splits)
  have eth1: "calculate_ethnicity_similarity artist_ethnicity brand_ethnicity = 0.7"
    if "artist_ethnicity = [] \<or> brand_ethnicity = ''''"
    using that by (auto simp add: calculate_ethnicity_similarity_def)
  have eth2: "calculate_ethnicity_similarity artist_ethnicity brand_ethnicity = 0.5"
    if "artist_ethnicity \<noteq> [] \<and> brand_ethnicity \<noteq> ''''
       \<and> \<not> contains brand_ethnicity ''White'' \<and> \<not> contains brand_ethnicity ''Hispanic''
       \<and> \<not> contains brand_ethnicity ''African American''
       \<and> \<not> contains brand_ethnicity ''Asian''"
    using that by (simp add: calculate_ethnicity_similarity_def)
  have bl: "1 \<le> brand_income_level brand_income \<and> brand_income_level brand_income \<le> 6"
    by (rule brand_income_level_range)
  have al: "1 \<le> artist_income_level artist_income \<and> artist_income_level artist_income \<le> 6"
    by (rule artist_income_level_range)
  have inc1: "calculate_income_similarity [] brand_income
            = 1 - \<bar>3.5 - brand_income_level brand_income\<bar> / 5
          \<and> 0.5 \<le> calculate_income_similarity [] brand_income
          \<and> calculate_income_similarity [] brand_income \<le> 1"
  proof -
    have e: "artist_income_level [] = 7 / 2" by (simp add: artist_income_level_def)
    have "calculate_income_similarity [] brand_income
        = 1 - \<bar>7 / 2 - brand_income_level brand_income\<bar> / 5"
      by (simp only: calculate_income_similarity_eq e)
    moreover have "\<bar>7 / 2 - brand_income_level brand_income\<bar> \<le> 5 / 2"
      using bl by linarith
    ultimately show ?thesis by simp
  qed
  have inc2: "calculate_income_similarity artist_income brand_income
            = 1 - \<bar>artist_income_level artist_income - 3.5\<bar> / 5
          \<and> 0.5 \<le> calculate_income_similarity artist_income brand_income
          \<and> calculate_income_similarity artist_income brand_income \<le> 1"
    if "\<forall>(bracket, level) \<in> set income_brackets. \<not> contains brand_income bracket"
  proof -
    have "find (\<lambda>(bracket, level). contains brand_income bracket) income_brackets = None"
      using that by (auto simp add: find_None_iff)
    then have e: "brand_income_level brand_income = 7 / 2"
      by (simp add: brand_income_level_def)
    have "calculate_income_similarity artist_income brand_income
        = 1 - \<bar>artist_income_level artist_income - 7 / 2\<bar> / 5"
      by (simp only: calculate_income_similarity_eq e)
    moreover have "\<bar>artist_income_level artist_income - 7 / 2\<bar> \<le> 5 / 2"
      using al by linarith
    ultimately show ?thesis by simp
  qed
  show ?thesis using age1 age2 eth1 eth2 inc1 inc2 by blast
qed

theorem missing_input_scores_witness:
  "calculate_age_similarity [(''21-29 Years Old'', 1)] ''unknown'' = 0.5
   \<and> calculate_age_similarity [] ''21-29'' = 0.5
   \<and> calculate_ethnicity_similarity [] ''White'' = 0.7
   \<and> calculate_ethnicity_similarity [(''White'', 0.2)] ''Other'' = 0.5
   \<and> calculate_income_similarity [] ''$150,000+'' = 0.5
   \<and> calculate_income_similarity [(''$50K-$74K'', 0)] ''unknown'' = 0.9"
proof -
  have u1: "\<forall>(age_str, age_tuple) \<in> set age_map. \<not> contains ''unknown'' age_str"
    by code_simp
  have u2: "\<forall>(bracket, level) \<in> set income_brackets. \<not> contains ''unknown'' bracket"
    by code_simp
  have o: "\<not> contains ''Other'' ''White'' \<and> \<not> contains ''Other'' ''Hispanic''
       \<and> \<not> contains ''Other'' ''African American'' \<and> \<not> contains ''Other'' ''Asian''"
    by code_simp
  have l1: "brand_income_level ''$150,000+'' = 6" by code_simp
  have l2: "artist_income_level [(''$50K-$74K'', 0)] = 3" by code_simp
  have "calculate_age_similarity [(''21-29 Years Old'', 1)] ''unknown'' = 0.5"
    using missing_input_scores[where brand_age = "''unknown''"
        and artist_age = "[(''21-29 Years Old'', 1)]"] u1 by blast
  moreover have "calculate_age_similarity [] ''21-29'' = 0.5"
    using missing_input_scores[where brand_age = "''21-29''" and artist_age = "[]"] by blast
  moreover have "calculate_ethnicity_similarity [] ''White'' = 0.7"
    using missing_input_scores[where artist_ethnicity = "[]" and brand_ethnicity = "''White''"]
    by blast
  moreover have "calculate_ethnicity_similarity [(''White'', 0.2)] ''Other'' = 0.5"
    using missing_input_scores[where artist_ethnicity = "[(''White'', 0.2)]"
        and brand_ethnicity = "''Other''"] o by simp
  moreover have "calculate_income_similarity [] ''$150,000+'' = 0.5"
    using missing_input_scores[where artist_income = "[]" and brand_income = "''$150,000+''"]
    by (simp add: l1)
  moreover have "calculate_income_similarity [(''$50K-$74K'', 0)] ''unknown'' = 0.9"
    using missing_input_scores[where artist_income = "[(''$50K-$74K'', 0)]"
        and brand_income = "''unknown''"] u2
    by (simp add: l2)
  ultimately show ?thesis by blast
qed

text \<open>
  C9 (as stated, fails). The placeholder \<^verbatim>\<open>{'': ''}\<close> is answered with the empty dictionary
  before any parsing, although its quote-normalised form \<^verbatim>\<open>{"": ""}\<close> is JSON that
  \<^verbatim>\<open>json.loads\<close> parses to a dictionary with one (empty) key: the parsed value is not
  returned on that input.
\<close>

theorem parse_placeholder_counterexample:
  "\<not> (\<forall>loads.
        loads (replace_quotes empty_placeholder) = Some (JObject [('''', JString '''')])
        \<longrightarrow> parse_brand_audience loads (Some empty_placeholder)
              = JObject [('''', JString '''')])"
proof
  let ?normalized = "replace_quotes empty_placeholder"
  let ?loads = "\<lambda>s. if s = ?normalized then Some (JObject [('''', JString '''')]) else None"
  assume a: "\<forall>loads. loads ?normalized = Some (JObject [('''', JString '''')])
        \<longrightarrow> parse_brand_audience loads (Some empty_placeholder)
              = JObject [('''', JString '''')]"
  have "parse_brand_audience ?loads (Some empty_placeholder) = JObject [('''', JString '''')]"
    using a[rule_format, of ?loads] by simp
  moreover have "parse_brand_audience ?loads (Some empty_placeholder) = JObject []"
    by (simp add: parse_brand_audience_def parse_brand_audience_body_def)
  ultimately show False by simp
qed

text \<open>
  C9 (amended). \<^verbatim>\<open>parse_brand_audience\<close> returns a value on every input and never raises: the
  empty dictionary for a missing cell and for the placeholder \<^verbatim>\<open>{'': ''}\<close>; for every other
  text, the parsed JSON value when the quote-normalised text parses and the empty dictionary
  when it does not; every exception of the body becomes the empty dictionary.
\<close>

theorem parse_brand_audience_cases:
  "parse_brand_audience loads None = JObject []
   \<and> parse_brand_audience loads (Some empty_placeholder) = JObject []
   \<and> (text \<noteq> empty_placeholder \<and> loads (replace_quotes text) = Some parsed
        \<longrightarrow> parse_brand_audience loads (Some text) = parsed)
   \<and> (loads (replace_quotes text) = None
        \<longrightarrow> parse_brand_audience loads (Some text) = JObject [])
   \<and> (\<forall>exn. parse_brand_audience_body loads audience_json = Inl exn
        \<longrightarrow> parse_brand_audience loads audience_json = JObject [])"
  by (simp add: parse_brand_audience_def parse_brand_audience_body_def)

theorem parse_brand_audience_cases_witness:
  "parse_brand_audience (\<lambda>s. if s = ''{}'' then Some (JObject []) else None) (Some ''{}'')
     = JObject []
   \<and> parse_brand_audience (\<lambda>s. if s = ''[1]'' then Some (JArray [JNumber 1]) else None)
       (Some ''[1]'') = JArray [JNumber 1]
   \<and> parse_brand_audience (\<lambda>s. None) (Some ''not json'') = JObject []"
proof -
  have n1: "''[1]'' \<noteq> empty_placeholder" by (simp add: empty_placeholder_def)
  have r1: "replace_quotes ''[1]'' = ''[1]''" by (simp add: replace_quotes_def apostrophe_def)
  have n2: "''{}'' \<noteq> empty_placeholder" by (simp add: empty_placeholder_def)
  have r2: "replace_quotes ''{}'' = ''{}''" by (simp add: replace_quotes_def apostrophe_def)
  have "parse_brand_audience (\<lambda>s. if s = ''{}'' then Some (JObject []) else None) (Some ''{}'')
     = JObject []"
    using parse_brand_audience_cases[of "\<lambda>s. if s = ''{}'' then Some (JObject []) else None"
        "''{}''" "JObject []"] n2 r2 by simp
  moreover have "parse_brand_audience
       (\<lambda>s. if s = ''[1]'' then Some (JArray [JNumber 1]) else None) (Some ''[1]'')
     = JArray [JNumber 1]"
    using parse_brand_audience_cases[of
        "\<lambda>s. if s = ''[1]'' then Some (JArray [JNumber 1]) else None"
        "''[1]''" "JArray [JNumber 1]"] n1 r1 by simp
  moreover have "parse_brand_audience (\<lambda>s. None) (Some ''not json'') = JObject []"
    using parse_brand_audience_cases[of "\<lambda>s. None" "''not json''"] by simp
  ultimately show ?thesis by simp
qed

text \<open>
  C10. For every artist gender table and every brand gender text,
  \<^verbatim>\<open>calculate_gender_similarity\<close> returns one of 0.6, 0.75, 0.8 and 0.9; it never exceeds 0.9
  and never falls below 0.6.
\<close>

theorem gender_similarity_values:
  "calculate_gender_similarity artist_gender brand_gender \<in> {0.6, 0.75, 0.8, 0.9}
   \<and> calculate_gender_similarity artist_gender brand_gender \<le> 0.9
   \<and> 0.6 \<le> calculate_gender_similarity artist_gender brand_gender"
  by (simp add: calculate_gender_similarity_def Let_def)

end
